theory Spec2Isabelle
  imports Main "HOL-Library.Word"
begin

section \<open>Session-based authentication in front of the posts routes\<close>

text \<open>
  The development embeds the Express application of \<^verbatim>\<open>index.js\<close>, lines 1 to 116: the
  program that installs the session middleware, the guard \<^verbatim>\<open>requireAuth\<close> and the
  routes \<^verbatim>\<open>/\<close>, \<^verbatim>\<open>/register\<close>, \<^verbatim>\<open>/login\<close>, \<^verbatim>\<open>/logout\<close>, \<^verbatim>\<open>/posts\<close> and
  \<^verbatim>\<open>/posts/:id\<close>. Every handler is a function from the state it reads (the database,
  the request's session) and its input to the response and the state it leaves.
  The file goes on (lines 120 to 193) with a second program, the posts routes without
  sessions, which is not embedded.
\<close>

subsection \<open>JavaScript values\<close>

text \<open>
  A JavaScript string is a sequence of UTF-16 code units and \<^verbatim>\<open>.length\<close> counts them.
  A form field is a string or \<^verbatim>\<open>undefined\<close> (\<open>None\<close>): what the HTML forms of the
  application post through \<^verbatim>\<open>express.urlencoded\<close>. Fields that the extended parser
  turns into arrays or objects are outside the model.
\<close>

type_synonym jsstring = "16 word list"

definition utf16 :: "string \<Rightarrow> jsstring" where
  "utf16 s = map of_char s"

text \<open>\<^verbatim>\<open>!x\<close> is false exactly on a truthy \<open>x\<close>: a non-empty string, a number other than 0.\<close>

fun truthy :: "jsstring option \<Rightarrow> bool" where
  "truthy None = False"
| "truthy (Some s) = (s \<noteq> [])"

fun truthy_num :: "int option \<Rightarrow> bool" where
  "truthy_num None = False"
| "truthy_num (Some n) = (n \<noteq> 0)"

text \<open>The string held by a field that was tested truthy.\<close>

fun str :: "jsstring option \<Rightarrow> jsstring" where
  "str None = []"
| "str (Some s) = s"

subsection \<open>Data model\<close>

text \<open>
  The tables are those of the Prisma schema given in \<^verbatim>\<open>AUTHENTICATION.md\<close>: \<^verbatim>\<open>User\<close> with
  an auto-incremented \<^verbatim>\<open>id\<close>, a unique \<^verbatim>\<open>email\<close> and a \<^verbatim>\<open>passwordHash\<close>; \<^verbatim>\<open>Post\<close> with an
  auto-incremented \<^verbatim>\<open>id\<close> and a creation time. \<open>user_seq\<close> is the next value of the
  sequence behind \<^verbatim>\<open>User.id\<close>.
\<close>

record user =
  user_id :: int
  user_email :: jsstring
  passwordHash :: jsstring

record post =
  post_id :: int
  title :: jsstring
  content :: "jsstring option"
  createdAt :: nat

record db =
  users :: "user list"
  posts :: "post list"
  user_seq :: int

text \<open>\<^verbatim>\<open>req.session\<close>: the one field the application reads and writes.\<close>

record session =
  userId :: "int option"

text \<open>\<^verbatim>\<open>req.body\<close> of the two forms.\<close>

record body =
  email :: "jsstring option"
  password :: "jsstring option"

text \<open>
  What a handler sends: \<^verbatim>\<open>res.redirect(url)\<close>, \<^verbatim>\<open>res.render(view, locals)\<close> and
  \<^verbatim>\<open>res.status(n).send(text)\<close>.
\<close>

datatype locals = NoLocals | Error string | Posts "post list" | Post post

datatype response = Redirect string | Render string locals | Send nat string

text \<open>Express answers a redirect with 302 and a rendered view with 200 unless told otherwise.\<close>

fun status :: "response \<Rightarrow> nat" where
  "status (Redirect url) = 302"
| "status (Render view l) = 200"
| "status (Send n text) = n"

subsection \<open>The collaborators: Prisma, bcrypt, Number\<close>

text \<open>
  A Prisma call throws or returns. Whether a call fails in a given request (connection
  lost, time-out) is an input of the model: \<open>failing env c\<close>. A call that throws leaves
  the table as it was. \<open>salt\<close> is the randomness that \<^verbatim>\<open>bcrypt.hash\<close> draws in this
  request.
\<close>

datatype prisma_call = UserFindUnique | UserCreate | PostFindMany | PostFindUnique

datatype exn = PrismaClientError | UniqueConstraintViolation

record env =
  failing :: "prisma_call \<Rightarrow> bool"
  salt :: jsstring

definition prisma_user_findUnique :: "env \<Rightarrow> db \<Rightarrow> jsstring \<Rightarrow> exn + user option" where
  "prisma_user_findUnique ev d e =
     (if failing ev UserFindUnique then Inl PrismaClientError
      else Inr (find (\<lambda>u. user_email u = e) (users d)))"

definition prisma_user_create :: "env \<Rightarrow> db \<Rightarrow> jsstring \<Rightarrow> jsstring \<Rightarrow> exn + user \<times> db" where
  "prisma_user_create ev d e h =
     (if failing ev UserCreate then Inl PrismaClientError
      else if e \<in> user_email ` set (users d) then Inl UniqueConstraintViolation
      else let u = \<lparr>user_id = user_seq d, user_email = e, passwordHash = h\<rparr>
           in Inr (u, d\<lparr>users := users d @ [u], user_seq := user_seq d + 1\<rparr>))"

text \<open>\<^verbatim>\<open>orderBy: { createdAt: 'desc' }\<close>: newest first.\<close>

definition prisma_post_findMany :: "env \<Rightarrow> db \<Rightarrow> exn + post list" where
  "prisma_post_findMany ev d =
     (if failing ev PostFindMany then Inl PrismaClientError
      else Inr (rev (sort_key createdAt (posts d))))"

text \<open>
  \<^verbatim>\<open>Number(req.params.id)\<close> is an integer or not (\<^verbatim>\<open>NaN\<close>, a fraction); the conversion is
  JavaScript's and is a parameter of the model. Prisma rejects a value that is not an
  integer for the \<^verbatim>\<open>Int\<close> column by throwing.
\<close>

datatype jsnum = Integer int | NotInteger

definition prisma_post_findUnique :: "env \<Rightarrow> db \<Rightarrow> jsnum \<Rightarrow> exn + post option" where
  "prisma_post_findUnique ev d n =
     (if failing ev PostFindUnique then Inl PrismaClientError
      else case n of
             NotInteger \<Rightarrow> Inl PrismaClientError
           | Integer i \<Rightarrow> Inr (find (\<lambda>p. post_id p = i) (posts d)))"

text \<open>
  bcrypt is a parameter: \<open>bcrypt_hash lib p rounds s\<close> is \<^verbatim>\<open>bcrypt.hash(p, rounds)\<close> with
  the salt \<open>s\<close>, \<open>bcrypt_compare lib p h\<close> is \<^verbatim>\<open>bcrypt.compare(p, h)\<close>. On strings
  neither throws.
\<close>

record lib =
  bcrypt_hash :: "jsstring \<Rightarrow> nat \<Rightarrow> jsstring \<Rightarrow> jsstring"
  bcrypt_compare :: "jsstring \<Rightarrow> jsstring \<Rightarrow> bool"
  Number :: "jsstring \<Rightarrow> jsnum"

subsection \<open>Middleware\<close>

text \<open>
  \<^verbatim>\<open>res.locals.currentUser = req.session.userId ? { id: req.session.userId } : null\<close>:
  the identity context of the request.
\<close>

definition currentUser :: "session \<Rightarrow> int option" where
  "currentUser sess = (if truthy_num (userId sess) then userId sess else None)"

text \<open>
  \<^verbatim>\<open>requireAuth\<close>: \<open>next\<close> is what the rest of the route's chain does; the guard returns
  the redirect without it when the session has no user id.
\<close>

definition requireAuth :: "session \<Rightarrow> (exn + response) \<Rightarrow> (exn + response)" where
  "requireAuth sess next =
     (if \<not> truthy_num (userId sess) then Inr (Redirect ''/login'') else next)"

subsection \<open>Route handlers\<close>

text \<open>\<^verbatim>\<open>app.get('/')\<close>\<close>

definition get_root :: "session \<Rightarrow> response" where
  "get_root sess = Redirect ''/posts''"

text \<open>\<^verbatim>\<open>app.get('/register')\<close> and \<^verbatim>\<open>app.get('/login')\<close>\<close>

definition get_register :: "session \<Rightarrow> response" where
  "get_register sess = Render ''auth/register'' NoLocals"

definition get_login :: "session \<Rightarrow> response" where
  "get_login sess = Render ''auth/login'' NoLocals"

text \<open>
  \<^verbatim>\<open>app.post('/register')\<close>. \<open>register_try\<close> is the body of the \<^verbatim>\<open>try\<close> block: \<open>Inl\<close> is
  an exception on its way to the \<^verbatim>\<open>catch\<close>. The only write of the block is the last call
  that can throw, so the \<^verbatim>\<open>catch\<close> runs in the state the handler was entered with.
\<close>

definition register_try ::
  "lib \<Rightarrow> env \<Rightarrow> db \<Rightarrow> session \<Rightarrow> jsstring \<Rightarrow> jsstring \<Rightarrow> exn + response \<times> db \<times> session" where
  "register_try l ev d sess e p =
     (case prisma_user_findUnique ev d e of
        Inl x \<Rightarrow> Inl x
      | Inr (Some existing) \<Rightarrow>
          Inr (Render ''auth/register'' (Error ''Email already registered''), d, sess)
      | Inr None \<Rightarrow>
          (case prisma_user_create ev d e (bcrypt_hash l p 10 (salt ev)) of
             Inl x \<Rightarrow> Inl x
           | Inr (u, d') \<Rightarrow> Inr (Redirect ''/posts'', d', sess\<lparr>userId := Some (user_id u)\<rparr>)))"

definition post_register ::
  "lib \<Rightarrow> env \<Rightarrow> db \<Rightarrow> session \<Rightarrow> body \<Rightarrow> exn + response \<times> db \<times> session" where
  "post_register l ev d sess b =
     (if \<not> truthy (email b) \<or> \<not> truthy (password b)
        then Inr (Render ''auth/register'' (Error ''Email and password required''), d, sess)
      else if length (str (password b)) < 6
        then Inr (Render ''auth/register'' (Error ''Password must be at least 6 characters''), d, sess)
      else case register_try l ev d sess (str (email b)) (str (password b)) of
             Inr r \<Rightarrow> Inr r
           | Inl x \<Rightarrow> Inr (Render ''auth/register'' (Error ''Registration failed''), d, sess))"

text \<open>\<^verbatim>\<open>app.post('/login')\<close>\<close>

definition login_try ::
  "lib \<Rightarrow> env \<Rightarrow> db \<Rightarrow> session \<Rightarrow> jsstring \<Rightarrow> jsstring \<Rightarrow> exn + response \<times> session" where
  "login_try l ev d sess e p =
     (case prisma_user_findUnique ev d e of
        Inl x \<Rightarrow> Inl x
      | Inr None \<Rightarrow> Inr (Render ''auth/login'' (Error ''Invalid email or password''), sess)
      | Inr (Some u) \<Rightarrow>
          if \<not> bcrypt_compare l p (passwordHash u)
            then Inr (Render ''auth/login'' (Error ''Invalid email or password''), sess)
          else Inr (Redirect ''/posts'', sess\<lparr>userId := Some (user_id u)\<rparr>))"

definition post_login ::
  "lib \<Rightarrow> env \<Rightarrow> db \<Rightarrow> session \<Rightarrow> body \<Rightarrow> exn + response \<times> session" where
  "post_login l ev d sess b =
     (if \<not> truthy (email b) \<or> \<not> truthy (password b)
        then Inr (Render ''auth/login'' (Error ''Email and password required''), sess)
      else case login_try l ev d sess (str (email b)) (str (password b)) of
             Inr r \<Rightarrow> Inr r
           | Inl x \<Rightarrow> Inr (Render ''auth/login'' (Error ''Login failed''), sess))"

text \<open>
  \<^verbatim>\<open>app.post('/logout')\<close>: \<^verbatim>\<open>req.session.destroy\<close>, then the redirect from its callback.
  \<open>None\<close> is the destroyed session.
\<close>

definition post_logout :: "session \<Rightarrow> response \<times> session option" where
  "post_logout sess = (Redirect ''/login'', None)"

text \<open>
  \<^verbatim>\<open>app.get('/posts')\<close> and the handler of \<^verbatim>\<open>app.get('/posts/:id')\<close>. Neither has a
  \<^verbatim>\<open>try\<close>: an exception of Prisma rejects the handler's promise (\<open>Inl\<close>) and no response
  is sent by the handler.
\<close>

definition posts_index :: "env \<Rightarrow> db \<Rightarrow> exn + response" where
  "posts_index ev d =
     (case prisma_post_findMany ev d of
        Inl x \<Rightarrow> Inl x
      | Inr ps \<Rightarrow> Inr (Render ''posts/index'' (Posts ps)))"

definition posts_show :: "lib \<Rightarrow> env \<Rightarrow> db \<Rightarrow> jsstring \<Rightarrow> exn + response" where
  "posts_show l ev d id_param =
     (case prisma_post_findUnique ev d (Number l id_param) of
        Inl x \<Rightarrow> Inl x
      | Inr None \<Rightarrow> Inr (Send 404 ''Post not found'')
      | Inr (Some p) \<Rightarrow> Inr (Render ''posts/show'' (Post p)))"

subsection \<open>The route table\<close>

datatype request =
    GetRoot
  | GetRegister
  | PostRegister body
  | GetLogin
  | PostLogin body
  | PostLogout
  | GetPosts
  | GetPostsId jsstring

text \<open>
  The routes as \<^verbatim>\<open>index.js\<close> registers them: \<^verbatim>\<open>requireAuth\<close> stands in the chain of
  \<^verbatim>\<open>/posts/:id\<close> only. The result is the response, the database and the session the
  request leaves (\<open>None\<close>: destroyed).
\<close>

fun app ::
  "lib \<Rightarrow> env \<Rightarrow> db \<Rightarrow> session \<Rightarrow> request \<Rightarrow> exn + response \<times> db \<times> session option" where
  "app l ev d sess GetRoot = Inr (get_root sess, d, Some sess)"
| "app l ev d sess GetRegister = Inr (get_register sess, d, Some sess)"
| "app l ev d sess (PostRegister b) =
     map_sum id (\<lambda>(r, d', sess'). (r, d', Some sess')) (post_register l ev d sess b)"
| "app l ev d sess GetLogin = Inr (get_login sess, d, Some sess)"
| "app l ev d sess (PostLogin b) =
     map_sum id (\<lambda>(r, sess'). (r, d, Some sess')) (post_login l ev d sess b)"
| "app l ev d sess PostLogout = (case post_logout sess of (r, s) \<Rightarrow> Inr (r, d, s))"
| "app l ev d sess GetPosts =
     map_sum id (\<lambda>r. (r, d, Some sess)) (posts_index ev d)"
| "app l ev d sess (GetPostsId i) =
     map_sum id (\<lambda>r. (r, d, Some sess)) (requireAuth sess (posts_show l ev d i))"

subsection \<open>The session store\<close>

text \<open>
  The sessions are kept by the \<^verbatim>\<open>express-session\<close> package, which the repository
  configures (\<^verbatim>\<open>app.use(session({...}))\<close>) and whose code is not among its sources. The
  store is modelled from the specification's section 4.2; the time to live is the
  \<^verbatim>\<open>maxAge\<close> of \<^verbatim>\<open>index.js\<close>, in milliseconds. The random token of a new session is an
  input of \<open>store_create\<close>.
\<close>

type_synonym token = string

record entry =
  uid :: int
  expiresAt :: nat

type_synonym store = "token \<rightharpoonup> entry"

definition maxAge :: nat where
  "maxAge = 7 * 24 * 60 * 60 * 1000"

text \<open>Modelled from the spec: \<^verbatim>\<open>create(userId) -> token\<close> stores
  \<^verbatim>\<open>{token -> {userId, expiresAt = now + TTL}}\<close>; the session store is absent from the sources.\<close>

definition store_create :: "store \<Rightarrow> token \<Rightarrow> int \<Rightarrow> nat \<Rightarrow> store" where
  "store_create st t u now = st(t \<mapsto> \<lparr>uid = u, expiresAt = now + maxAge\<rparr>)"

text \<open>Modelled from the spec: \<^verbatim>\<open>resolve(token) -> userId | none\<close> returns the user id if the
  token exists and \<^verbatim>\<open>now < expiresAt\<close>, none otherwise; the session store is absent from the
  sources.\<close>

definition store_resolve :: "store \<Rightarrow> token \<Rightarrow> nat \<Rightarrow> int option" where
  "store_resolve st t now =
     (case st t of
        None \<Rightarrow> None
      | Some e \<Rightarrow> if now < expiresAt e then Some (uid e) else None)"

text \<open>Modelled from the spec: \<^verbatim>\<open>destroy(token)\<close> removes the mapping and is a no-op on an
  unknown token; the session store is absent from the sources.\<close>

definition store_destroy :: "store \<Rightarrow> token \<Rightarrow> store" where
  "store_destroy st t = st(t := None)"

text \<open>The operations that change the store, each at the time it happens, and a run of them.\<close>

datatype store_op = Create token int nat | Destroy token

fun store_step :: "store \<Rightarrow> store_op \<Rightarrow> store" where
  "store_step st (Create t u now) = store_create st t u now"
| "store_step st (Destroy t) = store_destroy st t"

definition run :: "store \<Rightarrow> store_op list \<Rightarrow> store" where
  "run st ops = foldl store_step st ops"

fun issues :: "token \<Rightarrow> store_op \<Rightarrow> bool" where
  "issues t (Create t' u now) = (t' = t)"
| "issues t (Destroy t') = False"

text \<open>Modelled from the spec: the session middleware of section 4.3 resolves the token of the
  request's cookie (\<open>None\<close>: no cookie) and attaches the user id, or nothing, to the request;
  the middleware is absent from the sources.\<close>

definition session_middleware :: "store \<Rightarrow> token option \<Rightarrow> nat \<Rightarrow> session" where
  "session_middleware st c now =
     \<lparr>userId = (case c of None \<Rightarrow> None | Some t \<Rightarrow> store_resolve st t now)\<rparr>"

text \<open>Modelled from the spec: destroying the session of a request removes the entry of the
  request's token from the store, a no-op when the request has no token;
  \<^verbatim>\<open>req.session.destroy\<close> is absent from the sources.\<close>

definition session_destroy :: "store \<Rightarrow> token option \<Rightarrow> store" where
  "session_destroy st c = (case c of None \<Rightarrow> st | Some t \<Rightarrow> store_destroy st t)"

text \<open>
  A logout request as the server sees it: the middleware loads the session of the cookie,
  the handler of \<^verbatim>\<open>/logout\<close> runs, and a session it destroyed leaves the store.
\<close>

definition logout_request :: "store \<Rightarrow> token option \<Rightarrow> nat \<Rightarrow> response \<times> store" where
  "logout_request st c now =
     (case post_logout (session_middleware st c now) of
        (r, None) \<Rightarrow> (r, session_destroy st c)
      | (r, Some s) \<Rightarrow> (r, st))"

subsection \<open>Concrete collaborators for evaluation\<close>

text \<open>
  Stand-ins for the libraries, to run the handlers on concrete requests: a hash that
  prefixes the salt, its comparison, and the conversion of decimal digits.
\<close>

definition decimal :: "jsstring \<Rightarrow> jsnum" where
  "decimal s =
     (if s \<noteq> [] \<and> list_all (\<lambda>c. 48 \<le> c \<and> c \<le> 57) s
      then Integer (foldl (\<lambda>a c. 10 * a + (uint c - 48)) 0 s)
      else NotInteger)"

definition toy_lib :: lib where
  "toy_lib =
     \<lparr>bcrypt_hash = (\<lambda>p rounds s. s @ p),
      bcrypt_compare = (\<lambda>p h. length p \<le> length h \<and> drop (length h - length p) h = p),
      Number = decimal\<rparr>"

definition up :: env where
  "up = \<lparr>failing = (\<lambda>c. False), salt = utf16 ''s4lt''\<rparr>"

definition down :: env where
  "down = \<lparr>failing = (\<lambda>c. True), salt = utf16 ''s4lt''\<rparr>"

definition anonymous :: session where
  "anonymous = \<lparr>userId = None\<rparr>"

definition empty_db :: db where
  "empty_db = \<lparr>users = [], posts = [], user_seq = 1\<rparr>"

definition hello :: post where
  "hello = \<lparr>post_id = 1, title = utf16 ''Hello'', content = None, createdAt = 1000\<rparr>"

definition blog_db :: db where
  "blog_db = \<lparr>users = [], posts = [hello], user_seq = 1\<rparr>"

definition alice :: body where
  "alice = \<lparr>email = Some (utf16 ''alice@example.com''), password = Some (utf16 ''secret1'')\<rparr>"

definition alice_user :: user where
  "alice_user = \<lparr>user_id = 1, user_email = utf16 ''alice@example.com'',
                  passwordHash = utf16 ''s4ltsecret1''\<rparr>"

definition alice_db :: db where
  "alice_db = \<lparr>users = [alice_user], posts = [], user_seq = 2\<rparr>"

definition one_session :: store where
  "one_session = store_create Map.empty ''tok1'' 1 0"

section \<open>Properties\<close>

subsection \<open>The guard\<close>

lemma requireAuth_anonymous:
  "currentUser sess = None \<Longrightarrow> requireAuth sess next = Inr (Redirect ''/login'')"
  by (cases "userId sess") (auto simp: currentUser_def requireAuth_def split: if_splits)

lemma requireAuth_authenticated:
  "currentUser sess \<noteq> None \<Longrightarrow> requireAuth sess next = next"
  by (cases "userId sess") (auto simp: currentUser_def requireAuth_def split: if_splits)

lemma show_guarded:
  "currentUser sess = None \<Longrightarrow>
     app l ev d sess (GetPostsId i) = Inr (Redirect ''/login'', d, Some sess)"
  by (simp add: requireAuth_anonymous)

lemma show_proceeds:
  "currentUser sess \<noteq> None \<Longrightarrow>
     app l ev d sess (GetPostsId i) = map_sum id (\<lambda>r. (r, d, Some sess)) (posts_show l ev d i)"
  by (simp add: requireAuth_authenticated)

lemma index_unguarded:
  "\<not> failing ev PostFindMany \<Longrightarrow>
     app l ev d sess GetPosts =
       Inr (Render ''posts/index'' (Posts (rev (sort_key createdAt (posts d)))), d, Some sess)"
  by (simp add: posts_index_def prisma_post_findMany_def)

lemma show_examples:
  "app toy_lib up blog_db anonymous (GetPostsId (utf16 ''1'')) =
     Inr (Redirect ''/login'', blog_db, Some anonymous)"
  "app toy_lib up blog_db \<lparr>userId = Some 1\<rparr> (GetPostsId (utf16 ''1'')) =
     Inr (Render ''posts/show'' (Post hello), blog_db, Some \<lparr>userId = Some 1\<rparr>)"
  "app toy_lib up blog_db \<lparr>userId = Some 1\<rparr> (GetPostsId (utf16 ''2'')) =
     Inr (Send 404 ''Post not found'', blog_db, Some \<lparr>userId = Some 1\<rparr>)"
  by (simp_all add: requireAuth_def anonymous_def posts_show_def prisma_post_findUnique_def
      toy_lib_def decimal_def utf16_def up_def blog_db_def hello_def)

text \<open>
  C1. The claim asks that \<^verbatim>\<open>GET /posts\<close> and \<^verbatim>\<open>GET /posts/:id\<close> answer a request without
  identity with a redirect to \<^verbatim>\<open>/login\<close> and do not run the handler. \<^verbatim>\<open>GET /posts/:id\<close>
  does (\<open>show_guarded\<close>, \<open>show_proceeds\<close>). \<^verbatim>\<open>GET /posts\<close> is registered without the
  guard and answers every session alike (\<open>index_unguarded\<close>): for a request with no
  session user and a database that holds one post, the list is read and rendered with
  status 200, and the response is not the redirect.
\<close>

theorem posts_index_unguarded:
  "currentUser anonymous = None \<and>
   app toy_lib up blog_db anonymous GetPosts =
     Inr (Render ''posts/index'' (Posts [hello]), blog_db, Some anonymous) \<and>
   status (Render ''posts/index'' (Posts [hello])) = 200 \<and>
   app toy_lib up blog_db anonymous GetPosts \<noteq> Inr (Redirect ''/login'', blog_db, Some anonymous)"
  by (simp add: currentUser_def anonymous_def posts_index_def prisma_post_findMany_def
      up_def blog_db_def)

subsection \<open>The root route\<close>

text \<open>
  C10. \<^verbatim>\<open>GET /\<close> answers every request with a redirect to \<^verbatim>\<open>/posts\<close>: the handler does
  not depend on the session, so an anonymous caller gets the same redirect as an
  authenticated one and never the redirect to \<^verbatim>\<open>/login\<close>; database and session are left
  as they were.
\<close>

theorem root_redirects_to_posts:
  "get_root sess = Redirect ''/posts'' \<and>
   get_root sess \<noteq> Redirect ''/login'' \<and>
   get_root sess = get_root sess' \<and>
   app l ev d sess GetRoot = Inr (Redirect ''/posts'', d, Some sess)"
  by (simp add: get_root_def)

theorem root_redirects_to_posts_witness:
  "get_root anonymous = Redirect ''/posts'' \<and>
   get_root anonymous \<noteq> Redirect ''/login'' \<and>
   get_root anonymous = get_root \<lparr>userId = Some 1\<rparr> \<and>
   app toy_lib up blog_db anonymous GetRoot = Inr (Redirect ''/posts'', blog_db, Some anonymous)"
  using root_redirects_to_posts [of anonymous "\<lparr>userId = Some 1\<rparr>" toy_lib up blog_db]
  by (simp add: get_root_def)

subsection \<open>Registration\<close>

lemma find_email_None:
  "find (\<lambda>u. user_email u = e) us = None \<longleftrightarrow> e \<notin> user_email ` set us"
  by (auto simp: find_None_iff)

lemma register_try_Inr:
  assumes "register_try l ev d sess e p = Inr (r, d', s')"
  shows "(r = Render ''auth/register'' (Error ''Email already registered'') \<and> d' = d \<and> s' = sess
            \<and> find (\<lambda>u. user_email u = e) (users d) \<noteq> None) \<or>
         (r = Redirect ''/posts'' \<and> find (\<lambda>u. user_email u = e) (users d) = None \<and>
          d' = d\<lparr>users := users d @ [\<lparr>user_id = user_seq d, user_email = e,
                                       passwordHash = bcrypt_hash l p 10 (salt ev)\<rparr>],
                 user_seq := user_seq d + 1\<rparr> \<and>
          s' = sess\<lparr>userId := Some (user_seq d)\<rparr>)"
  using assms
  by (auto simp: register_try_def prisma_user_findUnique_def prisma_user_create_def Let_def
      split: if_splits option.splits sum.splits)

lemma post_register_redirect:
  assumes "post_register l ev d sess b = Inr (Redirect ''/posts'', d', s')"
  shows "truthy (email b) \<and> truthy (password b) \<and> 6 \<le> length (str (password b)) \<and>
         find (\<lambda>u. user_email u = str (email b)) (users d) = None \<and>
         d' = d\<lparr>users := users d @ [\<lparr>user_id = user_seq d, user_email = str (email b),
                     passwordHash = bcrypt_hash l (str (password b)) 10 (salt ev)\<rparr>],
                 user_seq := user_seq d + 1\<rparr> \<and>
         s' = sess\<lparr>userId := Some (user_seq d)\<rparr>"
proof -
  from assms have ok: "truthy (email b)" "truthy (password b)" "6 \<le> length (str (password b))"
    by (auto simp: post_register_def split: if_splits)
  with assms have "register_try l ev d sess (str (email b)) (str (password b)) =
      Inr (Redirect ''/posts'', d', s')"
    by (auto simp: post_register_def split: sum.splits)
  from register_try_Inr [OF this] ok show ?thesis by auto
qed

lemma post_register_total:
  "\<exists>r d' s'. post_register l ev d sess b = Inr (r, d', s') \<and>
     (r = Redirect ''/posts'' \<or>
      (\<exists>m. r = Render ''auth/register'' (Error m)) \<and> status r = 200 \<and> d' = d \<and> s' = sess)"
proof (cases "register_try l ev d sess (str (email b)) (str (password b))")
  case (Inl x)
  then show ?thesis by (simp add: post_register_def)
next
  case (Inr t)
  obtain r d' s' where t: "t = (r, d', s')" by (cases t)
  from register_try_Inr [OF Inr [unfolded t]] Inr t show ?thesis
    by (auto simp: post_register_def)
qed

lemma register_persistence_failure:
  assumes "truthy (email b)" and "truthy (password b)" and "6 \<le> length (str (password b))"
    and "failing ev UserFindUnique \<or>
         failing ev UserCreate \<and> find (\<lambda>u. user_email u = str (email b)) (users d) = None"
  shows "post_register l ev d sess b =
           Inr (Render ''auth/register'' (Error ''Registration failed''), d, sess)"
  using assms
  by (auto simp: post_register_def register_try_def prisma_user_findUnique_def
      prisma_user_create_def)

lemma alice_registers:
  "post_register toy_lib up empty_db anonymous alice =
     Inr (Redirect ''/posts'', alice_db, \<lparr>userId = Some 1\<rparr>)"
  by (simp add: utf16_def post_register_def register_try_def prisma_user_findUnique_def
      prisma_user_create_def toy_lib_def up_def empty_db_def anonymous_def Let_def
      alice_def alice_db_def alice_user_def)

text \<open>
  C6. A registration whose password is a string of fewer than 6 code units fails with a
  validation message: the form is rendered again with the reason (the length message, or
  the "required" message when the password or the email is empty), no user is created
  and the session is the one the request came with, so an anonymous caller stays
  anonymous. The witness registers with a password of length 5.
\<close>

theorem short_password_rejected:
  assumes "password b = Some p" and "length p < 6"
  shows "post_register l ev d sess b =
           Inr (Render ''auth/register''
                  (Error (if truthy (email b) \<and> p \<noteq> []
                          then ''Password must be at least 6 characters''
                          else ''Email and password required'')), d, sess)"
  using assms by (simp add: post_register_def)

theorem short_password_rejected_witness:
  "length (utf16 ''12345'') = 5 \<and>
   post_register toy_lib up empty_db anonymous
       \<lparr>email = Some (utf16 ''alice@example.com''), password = Some (utf16 ''12345'')\<rparr> =
     Inr (Render ''auth/register'' (Error ''Password must be at least 6 characters''),
          empty_db, anonymous)"
  using short_password_rejected [of "\<lparr>email = Some (utf16 ''alice@example.com''), password = Some (utf16 ''12345'')\<rparr>"
      "utf16 ''12345''" toy_lib up empty_db anonymous]
  by (simp add: utf16_def)

text \<open>
  C7, as stated, fails: the handler tests the email for presence only. The address
  \<^verbatim>\<open>not-an-email\<close>, which has no \<^verbatim>\<open>@\<close>, is registered with the password
  \<^verbatim>\<open>secret1\<close>: the user is created, the session gets its id and the response is the
  redirect to \<^verbatim>\<open>/posts\<close>.
\<close>

theorem invalid_email_accepted:
  "of_char CHR ''@'' \<notin> set (utf16 ''not-an-email'') \<and>
   post_register toy_lib up empty_db anonymous
       \<lparr>email = Some (utf16 ''not-an-email''), password = Some (utf16 ''secret1'')\<rparr> =
     Inr (Redirect ''/posts'',
          \<lparr>users = [\<lparr>user_id = 1, user_email = utf16 ''not-an-email'',
                      passwordHash = utf16 ''s4ltsecret1''\<rparr>],
           posts = [], user_seq = 2\<rparr>,
          \<lparr>userId = Some 1\<rparr>)"
  by (simp add: utf16_def post_register_def register_try_def prisma_user_findUnique_def
      prisma_user_create_def toy_lib_def up_def empty_db_def anonymous_def Let_def)

text \<open>
  C7, amended. A registration whose email is missing or empty fails with the validation
  message "Email and password required": the form is rendered again, no user is created
  and the session is left as it was. A non-empty email is not examined further.
\<close>

theorem missing_email_rejected:
  assumes "\<not> truthy (email b)"
  shows "post_register l ev d sess b =
           Inr (Render ''auth/register'' (Error ''Email and password required''), d, sess)"
  using assms by (simp add: post_register_def)

theorem missing_email_rejected_witness:
  "post_register toy_lib up empty_db anonymous \<lparr>email = Some [], password = Some (utf16 ''secret1'')\<rparr> =
     Inr (Render ''auth/register'' (Error ''Email and password required''), empty_db, anonymous)
   \<and> post_register toy_lib up empty_db anonymous \<lparr>email = None, password = Some (utf16 ''secret1'')\<rparr> =
     Inr (Render ''auth/register'' (Error ''Email and password required''), empty_db, anonymous)"
  using missing_email_rejected [of "\<lparr>email = Some [], password = Some (utf16 ''secret1'')\<rparr>" toy_lib up empty_db anonymous]
    missing_email_rejected [of "\<lparr>email = None, password = Some (utf16 ''secret1'')\<rparr>" toy_lib up empty_db anonymous]
  by simp

subsection \<open>Failures at the handler boundary\<close>

lemma login_try_Inr:
  assumes "login_try l ev d sess e p = Inr (r, s')"
  shows "(r = Render ''auth/login'' (Error ''Invalid email or password'') \<and> s' = sess) \<or>
         (\<exists>u. r = Redirect ''/posts'' \<and> find (\<lambda>u. user_email u = e) (users d) = Some u \<and>
               bcrypt_compare l p (passwordHash u) \<and> s' = sess\<lparr>userId := Some (user_id u)\<rparr>)"
  using assms
  by (auto simp: login_try_def prisma_user_findUnique_def
      split: if_splits option.splits sum.splits)

lemma post_login_total:
  "\<exists>r s'. post_login l ev d sess b = Inr (r, s') \<and>
     (r = Redirect ''/posts'' \<or>
      (\<exists>m. r = Render ''auth/login'' (Error m)) \<and> status r = 200 \<and> s' = sess)"
proof (cases "login_try l ev d sess (str (email b)) (str (password b))")
  case (Inl x)
  then show ?thesis by (simp add: post_login_def)
next
  case (Inr t)
  obtain r s' where t: "t = (r, s')" by (cases t)
  from login_try_Inr [OF Inr [unfolded t]] Inr t show ?thesis
    by (auto simp: post_login_def)
qed

lemma login_persistence_failure:
  assumes "truthy (email b)" and "truthy (password b)" and "failing ev UserFindUnique"
  shows "post_login l ev d sess b =
           Inr (Render ''auth/login'' (Error ''Login failed''), sess)"
  using assms
  by (auto simp: post_login_def login_try_def prisma_user_findUnique_def)

text \<open>
  C8. Every register request and every login request is answered: the handler returns a
  response, never an exception. The response is the redirect of the success case, or the
  form rendered again with an error message and status 200, and then the database and
  the session are unchanged. When Prisma throws during a registration (at the look-up, or
  at the creation after a look-up that found nobody), the response is the form with
  "Registration failed", no user record is added and no session is created; a look-up
  that throws during a login gives the form with "Login failed".
\<close>

theorem auth_failures_rendered:
  "(\<exists>r d' s'. post_register l ev d sess b = Inr (r, d', s') \<and>
      (r = Redirect ''/posts'' \<or>
       (\<exists>m. r = Render ''auth/register'' (Error m)) \<and> status r = 200 \<and> d' = d \<and> s' = sess)) \<and>
   (\<exists>r s'. post_login l ev d sess b = Inr (r, s') \<and>
      (r = Redirect ''/posts'' \<or>
       (\<exists>m. r = Render ''auth/login'' (Error m)) \<and> status r = 200 \<and> s' = sess)) \<and>
   (truthy (email b) \<and> truthy (password b) \<and> 6 \<le> length (str (password b)) \<and>
    (failing ev UserFindUnique \<or>
     failing ev UserCreate \<and> find (\<lambda>u. user_email u = str (email b)) (users d) = None)
    \<longrightarrow> post_register l ev d sess b =
          Inr (Render ''auth/register'' (Error ''Registration failed''), d, sess)) \<and>
   (truthy (email b) \<and> truthy (password b) \<and> failing ev UserFindUnique
    \<longrightarrow> post_login l ev d sess b = Inr (Render ''auth/login'' (Error ''Login failed''), sess))"
  using post_register_total [of l ev d sess b] post_login_total [of l ev d sess b]
    register_persistence_failure [of b ev d l sess] login_persistence_failure [of b ev l d sess]
  by blast

theorem auth_failures_rendered_witness:
  "post_register toy_lib down empty_db anonymous
       \<lparr>email = Some (utf16 ''alice@example.com''), password = Some (utf16 ''secret1'')\<rparr> =
     Inr (Render ''auth/register'' (Error ''Registration failed''), empty_db, anonymous) \<and>
   post_login toy_lib down empty_db anonymous
       \<lparr>email = Some (utf16 ''alice@example.com''), password = Some (utf16 ''secret1'')\<rparr> =
     Inr (Render ''auth/login'' (Error ''Login failed''), anonymous) \<and>
   status (Render ''auth/register'' (Error ''Registration failed'')) = 200"
  using auth_failures_rendered [of toy_lib down empty_db anonymous
      "\<lparr>email = Some (utf16 ''alice@example.com''), password = Some (utf16 ''secret1'')\<rparr>"]
  by (simp add: utf16_def down_def)

subsection \<open>Registering an email twice\<close>

text \<open>
  C4. After a registration of \<open>e\<close> that succeeded, a registration with the same email
  and any password of at least 6 code units, by any caller, while the look-up works, is
  answered with "Email already registered": the database is the one the first
  registration left, with exactly one record for \<open>e\<close>, and the caller's session is
  unchanged, so an anonymous caller stays anonymous and no session is issued.
\<close>

theorem duplicate_email_rejected:
  assumes "post_register l ev d sess \<lparr>email = Some e, password = Some p\<rparr> =
             Inr (Redirect ''/posts'', d', sess')"
    and "\<not> failing ev2 UserFindUnique"
    and "6 \<le> length p2"
  shows "post_register l2 ev2 d' sess2 \<lparr>email = Some e, password = Some p2\<rparr> =
           Inr (Render ''auth/register'' (Error ''Email already registered''), d', sess2) \<and>
         length (filter (\<lambda>u. user_email u = e) (users d')) = 1"
proof -
  from post_register_redirect [OF assms(1)]
  have e: "e \<noteq> []"
    and fresh: "find (\<lambda>u. user_email u = e) (users d) = None"
    and d': "users d' = users d @ [\<lparr>user_id = user_seq d, user_email = e,
                passwordHash = bcrypt_hash l p 10 (salt ev)\<rparr>]"
    by auto
  from fresh have none: "filter (\<lambda>u. user_email u = e) (users d) = []"
    by (auto simp: find_email_None filter_empty_conv)
  from d' have "find (\<lambda>u. user_email u = e) (users d') \<noteq> None"
    by (auto simp: find_None_iff)
  then obtain u where "find (\<lambda>u. user_email u = e) (users d') = Some u" by blast
  with e assms(2,3) have "post_register l2 ev2 d' sess2 \<lparr>email = Some e, password = Some p2\<rparr> =
      Inr (Render ''auth/register'' (Error ''Email already registered''), d', sess2)"
    by (auto simp: post_register_def register_try_def prisma_user_findUnique_def)
  moreover from d' none have "length (filter (\<lambda>u. user_email u = e) (users d')) = 1"
    by simp
  ultimately show ?thesis by simp
qed

theorem duplicate_email_rejected_witness:
  "post_register toy_lib up empty_db anonymous alice =
     Inr (Redirect ''/posts'', alice_db, \<lparr>userId = Some 1\<rparr>) \<and>
   post_register toy_lib up alice_db anonymous alice =
     Inr (Render ''auth/register'' (Error ''Email already registered''), alice_db, anonymous) \<and>
   length (filter (\<lambda>u. user_email u = utf16 ''alice@example.com'') (users alice_db)) = 1"
proof -
  have 1: "post_register toy_lib up empty_db anonymous
      \<lparr>email = Some (utf16 ''alice@example.com''), password = Some (utf16 ''secret1'')\<rparr> =
     Inr (Redirect ''/posts'', alice_db, \<lparr>userId = Some 1\<rparr>)"
    using alice_registers by (simp add: alice_def)
  have 2: "\<not> failing up UserFindUnique" by (simp add: up_def)
  have 3: "6 \<le> length (utf16 ''secret1'')" by (simp add: utf16_def)
  from duplicate_email_rejected [OF 1 2 3, of toy_lib anonymous] alice_registers
  show ?thesis by (simp add: alice_def)
qed

subsection \<open>Login\<close>

text \<open>
  C3. A login that fails because no user has the email and a login that fails because
  the password does not verify against the stored hash get the same result: the login
  form with "Invalid email or password", and the session unchanged.
\<close>

theorem login_failures_indistinguishable:
  assumes "\<not> failing ev UserFindUnique" and "\<not> failing ev' UserFindUnique"
    and "e \<noteq> []" and "p \<noteq> []" and "e' \<noteq> []" and "p' \<noteq> []"
    and "find (\<lambda>u. user_email u = e) (users d) = None"
    and "find (\<lambda>u. user_email u = e') (users d) = Some u"
    and "\<not> bcrypt_compare l p' (passwordHash u)"
  shows "post_login l ev d sess \<lparr>email = Some e, password = Some p\<rparr> =
           Inr (Render ''auth/login'' (Error ''Invalid email or password''), sess) \<and>
         post_login l ev' d sess \<lparr>email = Some e', password = Some p'\<rparr> =
           post_login l ev d sess \<lparr>email = Some e, password = Some p\<rparr>"
  using assms by (simp add: post_login_def login_try_def prisma_user_findUnique_def)

theorem login_failures_indistinguishable_witness:
  "post_login toy_lib up alice_db anonymous
       \<lparr>email = Some (utf16 ''bob@example.com''), password = Some (utf16 ''secret1'')\<rparr> =
     Inr (Render ''auth/login'' (Error ''Invalid email or password''), anonymous) \<and>
   post_login toy_lib up alice_db anonymous
       \<lparr>email = Some (utf16 ''alice@example.com''), password = Some (utf16 ''wrongpass'')\<rparr> =
     post_login toy_lib up alice_db anonymous
       \<lparr>email = Some (utf16 ''bob@example.com''), password = Some (utf16 ''secret1'')\<rparr>"
proof -
  have 1: "\<not> failing up UserFindUnique" by (simp add: up_def)
  have 2: "utf16 ''bob@example.com'' \<noteq> []" "utf16 ''secret1'' \<noteq> []"
    "utf16 ''alice@example.com'' \<noteq> []" "utf16 ''wrongpass'' \<noteq> []"
    by (simp_all add: utf16_def)
  have 3: "find (\<lambda>u. user_email u = utf16 ''bob@example.com'') (users alice_db) = None"
    by (simp add: alice_db_def alice_user_def utf16_def)
  have 4: "find (\<lambda>u. user_email u = utf16 ''alice@example.com'') (users alice_db) = Some alice_user"
    by (simp add: alice_db_def alice_user_def)
  have 5: "\<not> bcrypt_compare toy_lib (utf16 ''wrongpass'') (passwordHash alice_user)"
    by (simp add: toy_lib_def alice_user_def utf16_def)
  from login_failures_indistinguishable [OF 1 1 2 3 4 5] show ?thesis .
qed

lemma find_append_Some:
  "find P xs = Some x \<Longrightarrow> find P (xs @ ys) = Some x"
  by (induction xs) (auto split: if_splits)

lemma find_append_None:
  "find P xs = None \<Longrightarrow> find P (xs @ ys) = find P ys"
  by (induction xs) (auto split: if_splits)

text \<open>
  C5. Let bcrypt accept every password against its own hash. After a registration of
  \<open>(e, p)\<close> that succeeded, and whatever users have been added since, a login with
  \<open>(e, p)\<close>, while the look-up works, finds the user registered for \<open>e\<close>, sets the
  session's \<open>userId\<close> to that user's id and redirects to \<^verbatim>\<open>/posts\<close>.
\<close>

theorem registered_pair_logs_in:
  assumes "\<And>q rounds s. bcrypt_compare l q (bcrypt_hash l q rounds s)"
    and "post_register l ev d sess0 \<lparr>email = Some e, password = Some p\<rparr> =
           Inr (Redirect ''/posts'', d', sess1)"
    and "users d'' = users d' @ later"
    and "\<not> failing ev' UserFindUnique"
  shows "\<exists>u. find (\<lambda>u. user_email u = e) (users d'') = Some u \<and>
             u \<in> set (users d') \<and> user_email u = e \<and> userId sess1 = Some (user_id u) \<and>
             post_login l ev' d'' sess \<lparr>email = Some e, password = Some p\<rparr> =
               Inr (Redirect ''/posts'', sess\<lparr>userId := Some (user_id u)\<rparr>)"
proof -
  define u where "u = \<lparr>user_id = user_seq d, user_email = e,
    passwordHash = bcrypt_hash l p 10 (salt ev)\<rparr>"
  from post_register_redirect [OF assms(2)]
  have e: "e \<noteq> []" and p: "p \<noteq> []"
    and fresh: "find (\<lambda>u. user_email u = e) (users d) = None"
    and d': "users d' = users d @ [u]"
    and s1: "sess1 = sess0\<lparr>userId := Some (user_seq d)\<rparr>"
    by (auto simp: u_def)
  from fresh d' have "find (\<lambda>u. user_email u = e) (users d') = Some u"
    by (simp add: find_append_None u_def)
  with assms(3) have found: "find (\<lambda>u. user_email u = e) (users d'') = Some u"
    by (simp add: find_append_Some)
  from assms(1) have ok: "bcrypt_compare l p (passwordHash u)"
    by (simp add: u_def)
  from found ok e p assms(4)
  have "post_login l ev' d'' sess \<lparr>email = Some e, password = Some p\<rparr> =
      Inr (Redirect ''/posts'', sess\<lparr>userId := Some (user_id u)\<rparr>)"
    by (simp add: post_login_def login_try_def prisma_user_findUnique_def)
  with found d' s1 show ?thesis by (auto simp: u_def)
qed

theorem registered_pair_logs_in_witness:
  "post_register toy_lib up empty_db anonymous alice =
     Inr (Redirect ''/posts'', alice_db, \<lparr>userId = Some 1\<rparr>) \<and>
   post_login toy_lib up alice_db anonymous alice = Inr (Redirect ''/posts'', \<lparr>userId = Some 1\<rparr>)"
proof -
  have 1: "\<And>q rounds s. bcrypt_compare toy_lib q (bcrypt_hash toy_lib q rounds s)"
    by (simp add: toy_lib_def)
  have 2: "post_register toy_lib up empty_db anonymous
      \<lparr>email = Some (utf16 ''alice@example.com''), password = Some (utf16 ''secret1'')\<rparr> =
     Inr (Redirect ''/posts'', alice_db, \<lparr>userId = Some 1\<rparr>)"
    using alice_registers by (simp add: alice_def)
  have 3: "users alice_db = users alice_db @ []" by simp
  have 4: "\<not> failing up UserFindUnique" by (simp add: up_def)
  from registered_pair_logs_in [of toy_lib, OF 1 2 3 4, of anonymous] alice_registers
  show ?thesis by (auto simp: alice_def anonymous_def)
qed

subsection \<open>Sessions that are destroyed or expired\<close>

lemma store_step_entry:
  "\<not> issues t x \<Longrightarrow> store_step st x t = st t \<or> store_step st x t = None"
  by (cases x) (auto simp: store_create_def store_destroy_def)

lemma run_entry:
  "\<forall>x \<in> set ops. \<not> issues t x \<Longrightarrow> run st ops t = st t \<or> run st ops t = None"
proof (induction ops arbitrary: st)
  case Nil
  then show ?case by (simp add: run_def)
next
  case (Cons x ops)
  from Cons.prems have x: "\<not> issues t x" and rest: "\<forall>y \<in> set ops. \<not> issues t y"
    by simp_all
  have unfold: "run st (x # ops) = run (store_step st x) ops"
    by (simp add: run_def)
  from Cons.IH [OF rest, of "store_step st x"] store_step_entry [OF x, of st]
  show ?case unfolding unfold by auto
qed

lemma resolve_absent: "st t = None \<Longrightarrow> store_resolve st t now = None"
  by (simp add: store_resolve_def)

lemma resolve_expired:
  "st t = Some e \<Longrightarrow> expiresAt e \<le> now \<Longrightarrow> store_resolve st t now = None"
  by (simp add: store_resolve_def)

lemma middleware_resolve:
  "userId (session_middleware st (Some t) now) = store_resolve st t now"
  by (simp add: session_middleware_def)

lemma currentUser_None: "userId sess = None \<Longrightarrow> currentUser sess = None"
  by (simp add: currentUser_def)

lemma logout_store:
  "logout_request st c now =
     (Redirect ''/login'', (case c of None \<Rightarrow> st | Some t \<Rightarrow> store_destroy st t))"
  by (simp add: logout_request_def post_logout_def session_destroy_def)

text \<open>
  C2. Take any run of store operations that does not issue the token \<open>t\<close> again. After
  \<open>t\<close> has been destroyed (by \<open>store_destroy\<close>, or by a logout request that carries
  it), \<open>t\<close> resolves to no user at any time after the run, and a request with \<open>t\<close> has
  no identity. If the entry of \<open>t\<close> has expired at \<open>now\<close>, then \<open>t\<close> resolves to no
  user at \<open>now\<close>, with its entry still in the store, and to no user at any later time
  after the run.
\<close>

theorem dead_session_never_resolves:
  assumes "\<forall>x \<in> set ops. \<not> issues t x"
  shows "store_resolve (run (store_destroy st t) ops) t now' = None \<and>
         store_resolve (run (snd (logout_request st (Some t) now)) ops) t now' = None \<and>
         currentUser (session_middleware (run (snd (logout_request st (Some t) now)) ops)
                        (Some t) now') = None \<and>
         (st t = Some e \<and> expiresAt e \<le> now \<and> now \<le> now' \<longrightarrow>
            store_resolve st t now = None \<and>
            store_resolve (run st ops) t now' = None \<and>
            currentUser (session_middleware (run st ops) (Some t) now') = None)"
proof -
  have "run (store_destroy st t) ops t = None"
    using run_entry [OF assms, of "store_destroy st t"] by (auto simp: store_destroy_def)
  then have destroyed: "store_resolve (run (store_destroy st t) ops) t now' = None"
    by (rule resolve_absent)
  have logout: "snd (logout_request st (Some t) now) = store_destroy st t"
    by (simp add: logout_store)
  have expired: "store_resolve st t now = None \<and> store_resolve (run st ops) t now' = None"
    if e: "st t = Some e" and old: "expiresAt e \<le> now" and later: "now \<le> now'"
  proof -
    from run_entry [OF assms, of st] e
    have "run st ops t = Some e \<or> run st ops t = None" by simp
    then have "store_resolve (run st ops) t now' = None"
      using old later by (auto simp: store_resolve_def)
    with resolve_expired [of st t e now, OF e old] show ?thesis by simp
  qed
  show ?thesis
    using destroyed expired
    by (simp add: logout currentUser_None middleware_resolve)
qed

theorem dead_session_never_resolves_witness:
  "store_resolve one_session ''tok1'' 5000 = Some 1 \<and>
   store_resolve (run (snd (logout_request one_session (Some ''tok1'') 5000))
                    [Create ''tok2'' 7 6000]) ''tok1'' 7000 = None \<and>
   one_session ''tok1'' = Some \<lparr>uid = 1, expiresAt = 604800000\<rparr> \<and>
   run one_session [Create ''tok2'' 7 6000] ''tok1'' = Some \<lparr>uid = 1, expiresAt = 604800000\<rparr> \<and>
   store_resolve (run one_session [Create ''tok2'' 7 6000]) ''tok1'' 604800000 = None"
proof -
  have 1: "\<forall>x \<in> set [Create ''tok2'' 7 6000]. \<not> issues ''tok1'' x" by simp
  have 2: "one_session ''tok1'' = Some \<lparr>uid = 1, expiresAt = 604800000\<rparr>"
    by (simp add: one_session_def store_create_def maxAge_def)
  have 3: "expiresAt \<lparr>uid = 1, expiresAt = 604800000\<rparr> \<le> 604800000" by simp
  have 4: "store_resolve one_session ''tok1'' 5000 = Some 1"
    by (simp add: store_resolve_def 2)
  have 5: "run one_session [Create ''tok2'' 7 6000] ''tok1'' = Some \<lparr>uid = 1, expiresAt = 604800000\<rparr>"
    by (simp add: run_def store_create_def 2)
  from dead_session_never_resolves [OF 1, where st = one_session and now = 5000
      and now' = 7000 and e = "\<lparr>uid = 1, expiresAt = 604800000\<rparr>"]
    dead_session_never_resolves [OF 1, where st = one_session and now = 604800000
      and now' = 604800000 and e = "\<lparr>uid = 1, expiresAt = 604800000\<rparr>"]
    2 3 4 5
  show ?thesis by simp
qed

subsection \<open>Logout\<close>

text \<open>
  C9. A logout always answers with the redirect to \<^verbatim>\<open>/login\<close>, whatever the session, and
  leaves the session destroyed. On the store it removes the entry of the request's token:
  nothing changes when the request has no token or the token is unknown, and when the
  request's session resolved to nobody the resolution of every token at every later time
  is what it was. A second logout with the same token gives the same response and the
  same store, and the token resolves to no user afterwards.
\<close>

theorem logout_always_succeeds:
  "post_logout sess = (Redirect ''/login'', None) \<and>
   app l ev d sess PostLogout = Inr (Redirect ''/login'', d, None) \<and>
   logout_request st c now =
     (Redirect ''/login'', (case c of None \<Rightarrow> st | Some t \<Rightarrow> store_destroy st t)) \<and>
   (c = None \<or> (\<exists>t. c = Some t \<and> st t = None) \<longrightarrow> snd (logout_request st c now) = st) \<and>
   (userId (session_middleware st c now) = None \<and> now \<le> now' \<longrightarrow>
      store_resolve (snd (logout_request st c now)) t' now' = store_resolve st t' now') \<and>
   logout_request (snd (logout_request st c now)) c now' =
     (Redirect ''/login'', snd (logout_request st c now)) \<and>
   userId (session_middleware (snd (logout_request st c now)) c now') = None"
proof (cases c)
  case None
  then show ?thesis
    by (simp add: logout_store post_logout_def session_middleware_def)
next
  case (Some t)
  have noop: "store_destroy st t = st" if "st t = None"
    using that by (auto simp: store_destroy_def)
  have same: "store_resolve (store_destroy st t) t' now' = store_resolve st t' now'"
    if "store_resolve st t now = None" and "now \<le> now'"
    using that by (auto simp: store_resolve_def store_destroy_def split: option.splits if_splits)
  have twice: "store_destroy (store_destroy st t) t = store_destroy st t"
    by (simp add: store_destroy_def)
  have gone: "store_resolve (store_destroy st t) t now' = None"
    by (simp add: store_resolve_def store_destroy_def)
  from Some noop same twice gone show ?thesis
    by (simp add: logout_store post_logout_def middleware_resolve)
qed

theorem logout_always_succeeds_witness:
  "app toy_lib up alice_db \<lparr>userId = Some 1\<rparr> PostLogout = Inr (Redirect ''/login'', alice_db, None) \<and>
   logout_request one_session (Some ''tok1'') 5000 = (Redirect ''/login'', Map.empty) \<and>
   logout_request Map.empty (Some ''tok1'') 6000 = (Redirect ''/login'', Map.empty) \<and>
   logout_request one_session None 5000 = (Redirect ''/login'', one_session) \<and>
   userId (session_middleware Map.empty (Some ''tok1'') 6000) = None"
proof -
  have 1: "store_destroy one_session ''tok1'' = Map.empty"
    by (simp add: one_session_def store_create_def store_destroy_def)
  have 2: "store_destroy Map.empty ''tok1'' = Map.empty"
    by (simp add: store_destroy_def)
  from logout_always_succeeds [of "\<lparr>userId = Some 1\<rparr>" toy_lib up alice_db one_session "Some ''tok1''" 5000 6000 "''tok1''"]
    logout_always_succeeds [of "\<lparr>userId = Some 1\<rparr>" toy_lib up alice_db Map.empty "Some ''tok1''" 6000 6000 "''tok1''"]
    logout_always_succeeds [of "\<lparr>userId = Some 1\<rparr>" toy_lib up alice_db one_session None 5000 6000 "''tok1''"]
  show ?thesis by (simp add: 1 2 session_middleware_def store_resolve_def)
qed

end
